theory Spec2Isabelle
  imports Main "HOL-Library.Word"
begin

section \<open>JavaScript strings\<close>

text \<open>
  A JavaScript string is modelled as a \<^typ>\<open>string\<close>: one \<^typ>\<open>char\<close> stands for one
  code unit. The strings the path mapper reads from a parsed URL are ASCII (the URL
  parser percent-encodes everything else).
\<close>

definition startsWith :: "string \<Rightarrow> string \<Rightarrow> bool" where
  "startsWith s p = (take (length p) s = p)"

definition endsWith :: "string \<Rightarrow> string \<Rightarrow> bool" where
  "endsWith s e = (length e \<le> length s \<and> drop (length s - length e) s = e)"

definition toLowerChar :: "char \<Rightarrow> char" where
  "toLowerChar c =
     (let n = (of_char c :: nat) in if 65 \<le> n \<and> n \<le> 90 then char_of (n + 32) else c)"

definition toLowerCase :: "string \<Rightarrow> string" where
  "toLowerCase s = map toLowerChar s"

text \<open>\<^verbatim>\<open>s.split(c)\<close> for a one-character separator: \<^verbatim>\<open>"".split("/")\<close> is \<^verbatim>\<open>[""]\<close>.\<close>

fun split_on :: "char \<Rightarrow> string \<Rightarrow> string list" where
  "split_on c [] = [[]]"
| "split_on c (x # xs) =
     (if x = c then [] # split_on c xs
      else (case split_on c xs of
              [] \<Rightarrow> [[x]]
            | w # ws \<Rightarrow> (x # w) # ws))"

text \<open>\<^verbatim>\<open>s.replace(/^p/, '')\<close> for a literal prefix \<open>p\<close>.\<close>

definition stripPrefix :: "string \<Rightarrow> string \<Rightarrow> string" where
  "stripPrefix p s = (if startsWith s p then drop (length p) s else s)"

text \<open>\<^verbatim>\<open>s.replace(/\/$/, '')\<close>: one trailing slash is removed.\<close>

definition stripTrailingSlash :: "string \<Rightarrow> string" where
  "stripTrailingSlash s = (if s \<noteq> [] \<and> last s = CHR ''/'' then butlast s else s)"

text \<open>
  \<^verbatim>\<open>s.replace(/^\/|\/$/g, '')\<close>: the global scan removes a slash at index 0, then goes on
  from index 1 and removes a slash that stands last.
\<close>

definition trimSlashes :: "string \<Rightarrow> string" where
  "trimSlashes s = stripTrailingSlash (stripPrefix ''/'' s)"

section \<open>Configuration (config.ts)\<close>

record urlSource_t =
  source_type :: string
  source_file :: string
  source_sitemap :: string

record selectors_t =
  exclude :: "string list"
  unwrap :: "string list"
  removeAttributesFlag :: bool

record turndownOptions_t =
  headingStyle :: string
  hr :: string
  bulletListMarker :: string
  codeBlockStyle :: string
  emDelimiter :: string
  linkStyle :: string
  strongDelimiter :: string

record fileOptions_t =
  addSourceUrl :: bool
  addDate :: bool
  useDomainSubfolders :: bool
  usePageTitlesForFilenames :: bool
  preserveUrlFilenames :: bool

record Config =
  outputDir :: string
  maxConcurrent :: nat
  timeout :: nat
  retryAttempts :: nat
  retryDelay :: nat
  urlSource :: urlSource_t
  selectors :: selectors_t
  turndownOptions :: turndownOptions_t
  userAgent :: string
  fileOptions :: fileOptions_t

definition DEFAULT_CONFIG :: Config where
  "DEFAULT_CONFIG =
     \<lparr> outputDir = ''dist'', maxConcurrent = 3, timeout = 30000, retryAttempts = 3,
       retryDelay = 3000,
       urlSource = \<lparr> source_type = ''file'', source_file = ''urls.txt'', source_sitemap = '''' \<rparr>,
       selectors = \<lparr> exclude = [''footer'', ''header'', ''nav'', ''script'', ''.cookie-banner'',
                                  ''#sidebar''],
                     unwrap = [''.container'', ''.wrapper''], removeAttributesFlag = True \<rparr>,
       turndownOptions = \<lparr> headingStyle = ''atx'', hr = ''---'', bulletListMarker = ''-'',
                           codeBlockStyle = ''fenced'', emDelimiter = ''*'',
                           linkStyle = ''referenced'', strongDelimiter = ''**'' \<rparr>,
       userAgent = ''Mozilla/5.0'',
       fileOptions = \<lparr> addSourceUrl = True, addDate = True, useDomainSubfolders = True,
                       usePageTitlesForFilenames = False, preserveUrlFilenames = True \<rparr> \<rparr>"

section \<open>The platform the path mapper calls\<close>

text \<open>
  \<^verbatim>\<open>index.ts\<close> calls four library functions that are not code of this repository: the
  \<^verbatim>\<open>URL\<close> constructor, \<^verbatim>\<open>URLSearchParams.get\<close>, \<^verbatim>\<open>sanitize\<close> (the package
  sanitize-filename) and \<^verbatim>\<open>path.join\<close>. They are parameters of the model. The
  constructor throws on a string it cannot parse: \<open>None\<close>.
\<close>

record url_obj =
  hostname :: string
  pathname :: string
  search :: string

record platform =
  URL_new :: "string \<Rightarrow> url_obj option"
  searchParams_get :: "string \<Rightarrow> string \<Rightarrow> string option"
  sanitize :: "string \<Rightarrow> string"
  path_join :: "string list \<Rightarrow> string"

section \<open>parseUrl (index.ts)\<close>

subsection \<open>The query hash\<close>

text \<open>
  \<^verbatim>\<open>ToInt32\<close> of an integer-valued number: wrap into \<open>[-2^31, 2^31)\<close>. The shift
  \<^verbatim>\<open>hash << 5\<close> is \<^verbatim>\<open>ToInt32(ToInt32(hash) * 32)\<close>, the subtraction and the addition are
  exact (the operands are far below \<open>2^53\<close>), and \<^verbatim>\<open>hash & hash\<close> is \<^verbatim>\<open>ToInt32(hash)\<close>.
\<close>

definition ToInt32 :: "int \<Rightarrow> int" where
  "ToInt32 x = (x + 2 ^ 31) mod 2 ^ 32 - 2 ^ 31"

definition shiftLeft5 :: "int \<Rightarrow> int" where
  "shiftLeft5 x = ToInt32 (ToInt32 x * 32)"

definition charCodeAt :: "char \<Rightarrow> int" where
  "charCodeAt c = int (of_char c)"

definition hashStep :: "int \<Rightarrow> char \<Rightarrow> int" where
  "hashStep hash c = ToInt32 ((shiftLeft5 hash - hash) + charCodeAt c)"

definition hexDigit :: "nat \<Rightarrow> char" where
  "hexDigit d = ''0123456789abcdef'' ! (d mod 16)"

text \<open>\<^verbatim>\<open>n.toString(16)\<close> for a non-negative integer.\<close>

function toString16 :: "nat \<Rightarrow> string" where
  "toString16 n = (if n < 16 then [hexDigit n] else toString16 (n div 16) @ [hexDigit (n mod 16)])"
  by pat_completeness auto
termination
  by (relation "measure id") auto

declare toString16.simps [simp del]

definition hashValue :: "string \<Rightarrow> int" where
  "hashValue s = foldl hashStep 0 s"

definition hashCode :: "string \<Rightarrow> string" where
  "hashCode s = toString16 (nat \<bar>hashValue s\<bar>)"

subsection \<open>The well-formed branch and the fallback\<close>

record parsed_url =
  domain :: string
  pathParts :: "string list"
  filename :: string
  originalUrl :: string

definition fileExtensions :: "string list" where
  "fileExtensions = [''.html'', ''.htm'', ''.php'', ''.asp'', ''.aspx'', ''.jsp'']"

definition stripExtension :: "string \<Rightarrow> string" where
  "stripExtension p =
     (case find (\<lambda>e. endsWith (toLowerCase p) e) fileExtensions of
        Some e \<Rightarrow> take (length p - length e) p
      | None \<Rightarrow> p)"

text \<open>\<^verbatim>\<open>a || b || c\<close> over the results of \<^verbatim>\<open>get\<close>: the first that is a non-empty string.\<close>

definition truthy :: "string option \<Rightarrow> bool" where
  "truthy v = (case v of None \<Rightarrow> False | Some s \<Rightarrow> s \<noteq> [])"

definition keyParam :: "platform \<Rightarrow> string \<Rightarrow> string option" where
  "keyParam px q =
     (if truthy (searchParams_get px q ''id'') then searchParams_get px q ''id''
      else if truthy (searchParams_get px q ''page'') then searchParams_get px q ''page''
      else searchParams_get px q ''slug'')"

definition queryName :: "platform \<Rightarrow> Config \<Rightarrow> string \<Rightarrow> string \<Rightarrow> string" where
  "queryName px config q name =
     (if q \<noteq> [] then
        (if preserveUrlFilenames (fileOptions config) then
           (let queryStr = stripPrefix ''?'' q in
            if length queryStr > 0 then name @ ''-'' @ hashCode queryStr else name)
         else
           (let k = keyParam px q in
            if truthy k then name @ ''-'' @ sanitize px (the k) else name))
      else name)"

text \<open>
  The try block, in three pieces: the path segments, the candidate filename taken from
  them, and the rest.
\<close>

definition candidateParts :: "url_obj \<Rightarrow> string list" where
  "candidateParts urlObj =
     (let path = stripExtension (trimSlashes (pathname urlObj))
      in if path \<noteq> [] then filter (\<lambda>p. p \<noteq> []) (split_on CHR ''/'' path) else [])"

definition candidateName :: "url_obj \<Rightarrow> string" where
  "candidateName urlObj =
     (let parts = candidateParts urlObj in if length parts > 0 then last parts else ''index'')"

definition parseUrl_try :: "platform \<Rightarrow> Config \<Rightarrow> string \<Rightarrow> url_obj \<Rightarrow> parsed_url" where
  "parseUrl_try px config url urlObj =
     (let dom = stripPrefix ''www.'' (hostname urlObj);
          parts = candidateParts urlObj;
          name0 = candidateName urlObj;
          name1 = queryName px config (search urlObj) name0;
          name2 = sanitize px name1;
          name3 = (if name2 = [] then ''index'' else name2);
          parts' = (if length parts > 0 then butlast parts else parts)
      in \<lparr> domain = dom, pathParts = parts', filename = name3 @ ''.md'', originalUrl = url \<rparr>)"

definition sanitizedUrl :: "string \<Rightarrow> string" where
  "sanitizedUrl url =
     (let u1 = (if startsWith url ''https://'' then drop 8 url
                else if startsWith url ''http://'' then drop 7 url else url);
          u2 = (if startsWith url ''https://'' \<or> startsWith url ''http://''
                then stripPrefix ''www.'' u1 else u1);
          u3 = takeWhile (\<lambda>c. c \<noteq> CHR ''?'' \<and> c \<noteq> CHR ''#'') u2
      in stripTrailingSlash u3)"

definition parseUrl_catch :: "platform \<Rightarrow> string \<Rightarrow> parsed_url" where
  "parseUrl_catch px url =
     (let parts = split_on CHR ''/'' (sanitizedUrl url);
          dom = hd parts;
          parts' = butlast (tl parts);
          name = (if length parts > 1 then last parts else ''index'')
      in \<lparr> domain = dom, pathParts = parts',
           filename = sanitize px (if name = [] then ''index'' else name) @ ''.md'',
           originalUrl = url \<rparr>)"

definition parseUrl :: "platform \<Rightarrow> Config \<Rightarrow> string \<Rightarrow> parsed_url" where
  "parseUrl px config url =
     (case URL_new px url of
        Some urlObj \<Rightarrow> parseUrl_try px config url urlObj
      | None \<Rightarrow> parseUrl_catch px url)"

section \<open>getOutputPaths (index.ts)\<close>

record output_paths =
  dirPath :: string
  filePath :: string

text \<open>\<^verbatim>\<open>dirParts\<close>: the segments handed to \<^verbatim>\<open>path.join\<close>, the output root first.\<close>

definition dirParts :: "platform \<Rightarrow> Config \<Rightarrow> string \<Rightarrow> string list" where
  "dirParts px config url =
     (let p = parseUrl px config url;
          domainDir = sanitize px (domain p);
          pathDirs = map (sanitize px) (pathParts p)
      in if useDomainSubfolders (fileOptions config)
         then [outputDir config, domainDir] @ pathDirs
         else [outputDir config] @ pathDirs)"

text \<open>The title is \<open>None\<close> for \<^verbatim>\<open>null\<close> or \<^verbatim>\<open>undefined\<close>; an empty title is falsy too.\<close>

definition outputFilename :: "platform \<Rightarrow> Config \<Rightarrow> string \<Rightarrow> string option \<Rightarrow> string" where
  "outputFilename px config url pageTitle =
     (let defaultFilename = filename (parseUrl px config url) in
      if usePageTitlesForFilenames (fileOptions config) \<and> truthy pageTitle
         \<and> \<not> preserveUrlFilenames (fileOptions config)
      then
        (let t0 = sanitize px (the pageTitle);
             titleFilename = (if length t0 > 100 then take 100 t0 else t0)
         in if titleFilename \<noteq> [] then titleFilename @ ''.md'' else defaultFilename)
      else defaultFilename)"

definition getOutputPaths :: "platform \<Rightarrow> Config \<Rightarrow> string \<Rightarrow> string option \<Rightarrow> output_paths" where
  "getOutputPaths px config url pageTitle =
     (let d = path_join px (dirParts px config url)
      in \<lparr> dirPath = d, filePath = path_join px [d, outputFilename px config url pageTitle] \<rparr>)"

section \<open>Errors and the DOM library\<close>

text \<open>
  A thrown JavaScript value. \<open>Thrown\<close> is \<^verbatim>\<open>throw new Error(message)\<close> of the source itself,
  \<open>LibraryError\<close> a failure reported by a library (network, file system, converter).
\<close>

datatype js_error = TypeError | SyntaxError | DOMException | Thrown string | LibraryError string

text \<open>
  \<^verbatim>\<open>htmlProcessor.ts\<close> works on a jsdom document, which it mutates in place. The library is
  a parameter: \<open>'d\<close> is the state of the document (and of the nodes detached from it),
  \<open>'e\<close> a reference to an element. A call that can throw returns a sum; a mutation
  returns the new state, and a mutation that throws leaves the state as it was.
    \<^item> \<open>JSDOM_new\<close>: \<^verbatim>\<open>new JSDOM(html).window.document\<close>;
    \<^item> \<open>hasParentNode\<close>: \<^verbatim>\<open>element.parentNode\<close> is not null;
    \<^item> \<open>removeFromParent\<close>: \<^verbatim>\<open>element.parentNode.removeChild(element)\<close>;
    \<^item> \<open>childCount\<close>: the number of child nodes of the element;
    \<^item> \<open>moveFirstChildBefore\<close>:
      \<^verbatim>\<open>element.parentNode.insertBefore(element.firstChild, element)\<close>;
    \<^item> \<open>attributeNames\<close>: the names of \<^verbatim>\<open>Array.from(element.attributes)\<close>;
    \<^item> \<open>outerHTML\<close>: \<^verbatim>\<open>document.documentElement.outerHTML\<close>, a \<^verbatim>\<open>TypeError\<close> when the
      document has no element left;
    \<^item> \<open>URL_origin\<close>: \<^verbatim>\<open>new URL(pageUrl).origin\<close>;
    \<^item> \<open>replaceMarkdownImage\<close>: \<^verbatim>\<open>alt.replace(markdownImageRegex, ...)\<close> for an origin.
\<close>

record ('d, 'e) dom =
  JSDOM_new :: "string \<Rightarrow> js_error + 'd"
  querySelector :: "'d \<Rightarrow> string \<Rightarrow> js_error + 'e option"
  querySelectorAll :: "'d \<Rightarrow> string \<Rightarrow> js_error + 'e list"
  getElementsByTagName :: "'d \<Rightarrow> string \<Rightarrow> 'e list"
  textContent :: "'d \<Rightarrow> 'e \<Rightarrow> string"
  getAttribute :: "'d \<Rightarrow> 'e \<Rightarrow> string \<Rightarrow> string option"
  setAttribute :: "'d \<Rightarrow> 'e \<Rightarrow> string \<Rightarrow> string \<Rightarrow> js_error + 'd"
  attributeNames :: "'d \<Rightarrow> 'e \<Rightarrow> string list"
  removeAttribute :: "'d \<Rightarrow> 'e \<Rightarrow> string \<Rightarrow> 'd"
  hasParentNode :: "'d \<Rightarrow> 'e \<Rightarrow> bool"
  removeFromParent :: "'d \<Rightarrow> 'e \<Rightarrow> js_error + 'd"
  childCount :: "'d \<Rightarrow> 'e \<Rightarrow> nat"
  moveFirstChildBefore :: "'d \<Rightarrow> 'e \<Rightarrow> js_error + 'd"
  outerHTML :: "'d \<Rightarrow> js_error + string"
  URL_origin :: "string \<Rightarrow> js_error + string"
  replaceMarkdownImage :: "string \<Rightarrow> string \<Rightarrow> string"

text \<open>
  A statement that mutates the document and may throw: the exception, if any, and the
  state reached. \<^verbatim>\<open>forEach\<close> stops at the first callback that throws.
\<close>

type_synonym 'd stmt = "'d \<Rightarrow> js_error option \<times> 'd"

definition lift :: "('d \<Rightarrow> js_error + 'd) \<Rightarrow> 'd stmt" where
  "lift f d = (case f d of Inl e \<Rightarrow> (Some e, d) | Inr d' \<Rightarrow> (None, d'))"

definition seq :: "'d stmt \<Rightarrow> 'd stmt \<Rightarrow> 'd stmt" where
  "seq s1 s2 d = (case s1 d of (Some e, d') \<Rightarrow> (Some e, d') | (None, d') \<Rightarrow> s2 d')"

fun forEach :: "('a \<Rightarrow> 'd stmt) \<Rightarrow> 'a list \<Rightarrow> 'd stmt" where
  "forEach f [] d = (None, d)"
| "forEach f (x # xs) d =
     (case f x d of (Some e, d') \<Rightarrow> (Some e, d') | (None, d') \<Rightarrow> forEach f xs d')"

text \<open>\<^verbatim>\<open>s.trim()\<close>: white space is removed at both ends.\<close>

definition isWhiteSpace :: "char \<Rightarrow> bool" where
  "isWhiteSpace c = ((of_char c :: nat) \<in> {9, 10, 11, 12, 13, 32, 160})"

definition trim :: "string \<Rightarrow> string" where
  "trim s = rev (dropWhile isWhiteSpace (rev (dropWhile isWhiteSpace s)))"

section \<open>HtmlProcessor (htmlProcessor.ts)\<close>

subsection \<open>The selector stages\<close>

fun join :: "string \<Rightarrow> string list \<Rightarrow> string" where
  "join sep [] = []"
| "join sep [x] = x"
| "join sep (x # y # ys) = x @ sep @ join sep (y # ys)"

definition processExcludeSelectors :: "('d, 'e) dom \<Rightarrow> Config \<Rightarrow> 'd \<Rightarrow> 'd" where
  "processExcludeSelectors L config d =
     (if exclude (selectors config) = [] then d
      else
        (let selector = join '', '' (exclude (selectors config)) in
         case querySelectorAll L d selector of
           Inl e \<Rightarrow> d
         | Inr elements \<Rightarrow>
             snd (forEach (\<lambda>element d'.
                    if hasParentNode L d' element then lift (\<lambda>x. removeFromParent L x element) d'
                    else (None, d')) elements d)))"

text \<open>
  \<^verbatim>\<open>while (element.firstChild) insertBefore(element.firstChild, element)\<close>: an insertion
  moves the node out of the element, so the loop body runs once for each child.
\<close>

fun moveChildren :: "('d, 'e) dom \<Rightarrow> nat \<Rightarrow> 'e \<Rightarrow> 'd stmt" where
  "moveChildren L 0 element d = (None, d)"
| "moveChildren L (Suc n) element d =
     (case moveFirstChildBefore L d element of
        Inl e \<Rightarrow> (Some e, d)
      | Inr d' \<Rightarrow> moveChildren L n element d')"

definition processUnwrapSelectors :: "('d, 'e) dom \<Rightarrow> Config \<Rightarrow> 'd \<Rightarrow> 'd" where
  "processUnwrapSelectors L config d =
     (if unwrap (selectors config) = [] then d
      else
        (let selector = join '', '' (unwrap (selectors config)) in
         case querySelectorAll L d selector of
           Inl e \<Rightarrow> d
         | Inr elements \<Rightarrow>
             snd (forEach (\<lambda>element d'.
                    if hasParentNode L d' element
                    then seq (\<lambda>x. moveChildren L (childCount L x element) element x)
                             (lift (\<lambda>x. removeFromParent L x element)) d'
                    else (None, d')) elements d)))"

definition keepAttributes :: "string list" where
  "keepAttributes = [''href'', ''src'', ''alt'', ''title'']"

definition removeAttributes :: "('d, 'e) dom \<Rightarrow> 'd \<Rightarrow> 'd" where
  "removeAttributes L d =
     (case querySelectorAll L d ''*'' of
        Inl e \<Rightarrow> d
      | Inr elements \<Rightarrow>
          snd (forEach (\<lambda>element d'.
                 forEach (\<lambda>name d''.
                     if name \<notin> set keepAttributes then (None, removeAttribute L d'' element name)
                     else (None, d''))
                   (attributeNames L d' element) d') elements d))"

definition applySelectors :: "('d, 'e) dom \<Rightarrow> Config \<Rightarrow> 'd \<Rightarrow> 'd" where
  "applySelectors L config d =
     (let d1 = processExcludeSelectors L config d;
          d2 = processUnwrapSelectors L config d1
      in if removeAttributesFlag (selectors config) then removeAttributes L d2 else d2)"

subsection \<open>absolutizeMediaUrls\<close>

definition mediaTags :: "(string \<times> string) list" where
  "mediaTags = [(''img'', ''src''), (''audio'', ''src''), (''video'', ''src''),
                (''source'', ''src''), (''picture'', ''src'')]"

text \<open>A value that starts with one slash, not with two, gets the origin in front.\<close>

definition absolutizeAttr :: "('d, 'e) dom \<Rightarrow> string \<Rightarrow> string \<Rightarrow> 'e \<Rightarrow> 'd stmt" where
  "absolutizeAttr L origin attr el d =
     (case getAttribute L d el attr of
        None \<Rightarrow> (None, d)
      | Some val \<Rightarrow>
          if val \<noteq> [] \<and> startsWith val ''/'' \<and> \<not> startsWith val ''//''
          then lift (\<lambda>x. setAttribute L x el attr (origin @ val)) d
          else (None, d))"

definition fixAlt :: "('d, 'e) dom \<Rightarrow> string \<Rightarrow> 'e \<Rightarrow> 'd stmt" where
  "fixAlt L origin el d =
     (case getAttribute L d el ''alt'' of
        None \<Rightarrow> (None, d)
      | Some alt \<Rightarrow>
          if alt \<noteq> [] then lift (\<lambda>x. setAttribute L x el ''alt'' (replaceMarkdownImage L origin alt)) d
          else (None, d))"

definition absolutizeMediaUrls :: "('d, 'e) dom \<Rightarrow> string \<Rightarrow> 'd stmt" where
  "absolutizeMediaUrls L pageUrl d =
     (case URL_origin L pageUrl of
        Inl e \<Rightarrow> (None, d)
      | Inr origin \<Rightarrow>
          seq (forEach (\<lambda>(tag, attr) d'.
                  forEach (absolutizeAttr L origin attr) (getElementsByTagName L d' tag) d') mediaTags)
         (seq (\<lambda>d'. forEach (\<lambda>anchor. seq (absolutizeAttr L origin ''href'' anchor)
                                            (fixAlt L origin anchor))
                        (getElementsByTagName L d' ''a'') d')
              (\<lambda>d'. forEach (fixAlt L origin) (getElementsByTagName L d' ''img'') d')) d)"

subsection \<open>process and extractPageTitle\<close>

text \<open>
  The body of the try block of \<^verbatim>\<open>process\<close>, and \<^verbatim>\<open>process\<close> with its catch, which
  returns the markup it was given. The result is a sum so that "does not throw" is a
  statement about the function rather than a property of its type.
\<close>

definition process_try :: "('d, 'e) dom \<Rightarrow> Config \<Rightarrow> string \<Rightarrow> string option \<Rightarrow> js_error + string" where
  "process_try L config html pageUrl =
     (case JSDOM_new L html of
        Inl e \<Rightarrow> Inl e
      | Inr document \<Rightarrow>
          (let d1 = applySelectors L config document in
           if truthy pageUrl then
             (case absolutizeMediaUrls L (the pageUrl) d1 of
                (Some e, d2) \<Rightarrow> Inl e
              | (None, d2) \<Rightarrow> outerHTML L d2)
           else outerHTML L d1))"

definition process :: "('d, 'e) dom \<Rightarrow> Config \<Rightarrow> string \<Rightarrow> string option \<Rightarrow> js_error + string" where
  "process L config html pageUrl =
     (case process_try L config html pageUrl of
        Inl e \<Rightarrow> Inr html
      | Inr s \<Rightarrow> Inr s)"

definition extractPageTitle_try :: "('d, 'e) dom \<Rightarrow> string \<Rightarrow> js_error + string option" where
  "extractPageTitle_try L html =
     (case JSDOM_new L html of
        Inl e \<Rightarrow> Inl e
      | Inr document \<Rightarrow>
     (case querySelector L document ''title'' of
        Inl e \<Rightarrow> Inl e
      | Inr titleElement \<Rightarrow>
          if titleElement \<noteq> None \<and> textContent L document (the titleElement) \<noteq> []
          then Inr (Some (trim (textContent L document (the titleElement))))
          else
     (case querySelector L document ''h1'' of
        Inl e \<Rightarrow> Inl e
      | Inr h1Element \<Rightarrow>
          if h1Element \<noteq> None \<and> textContent L document (the h1Element) \<noteq> []
          then Inr (Some (trim (textContent L document (the h1Element))))
          else
     (case querySelector L document (''meta[name='' @ [CHR 0x22] @ ''title'' @ [CHR 0x22] @ '']'') of
        Inl e \<Rightarrow> Inl e
      | Inr metaTitle \<Rightarrow>
          if metaTitle \<noteq> None \<and> truthy (getAttribute L document (the metaTitle) ''content'')
          then Inr (Some (trim (the (getAttribute L document (the metaTitle) ''content''))))
          else Inr None))))"

definition extractPageTitle :: "('d, 'e) dom \<Rightarrow> string \<Rightarrow> js_error + string option" where
  "extractPageTitle L html =
     (case extractPageTitle_try L html of
        Inl e \<Rightarrow> Inr None
      | Inr t \<Rightarrow> Inr t)"

section \<open>SitemapParser (sitemapParser.ts)\<close>

subsection \<open>The web and the XML parser\<close>

text \<open>
  The resolver reads the web as it stands while it runs: \<open>http_get url\<close> is what
  \<^verbatim>\<open>axios.get(url)\<close> gives, a thrown error or a response. \<open>parseStringPromise\<close> is the
  xml2js parser with \<^verbatim>\<open>explicitArray: false\<close>; \<open>URL_resolve loc base\<close> is
  \<^verbatim>\<open>new URL(loc, base).toString()\<close>.

  With \<^verbatim>\<open>explicitArray: false\<close> a child element that occurs once is an object, one that
  occurs several times an array, and one that does not occur is \<^verbatim>\<open>undefined\<close>.
\<close>

text \<open>An HTTP response, as far as the program reads it.\<close>

record response =
  status :: nat
  statusText :: string
  data :: string






subsection \<open>handleUrlset\<close>


subsection \<open>handleSitemapIndex\<close>








subsection \<open>parseSitemapContent and parseFromUrl\<close>



section \<open>The batch pipeline (index.ts)\<close>

subsection \<open>Collaborators and the world\<close>

text \<open>
  The pipeline talks to the network, the markdown converter, the file system and the
  clock. They are parameters:
    \<^item> \<open>server url k\<close>: what \<^verbatim>\<open>axios.get(url)\<close> gives for the request number \<open>k\<close> (from 0)
      made for this URL, a thrown error or a response;
    \<^item> \<open>turndown\<close>: \<^verbatim>\<open>turndownService.turndown(html)\<close> with the options and rules set;
    \<^item> \<open>ensureDir\<close>, \<open>writeFile\<close>: the error thrown for a path, if any;
    \<^item> \<open>toISOString\<close>: the text of a time.
  The world records what the run does: the number of requests made for each URL, the
  files written (in order), the console lines of \<^verbatim>\<open>index.ts\<close>, and the time, which the
  retry delay advances.
\<close>

record collaborators =
  server :: "string \<Rightarrow> nat \<Rightarrow> js_error + response"
  turndown :: "string \<Rightarrow> js_error + string"
  ensureDir :: "string \<Rightarrow> js_error option"
  writeFile :: "string \<Rightarrow> js_error option"
  toISOString :: "nat \<Rightarrow> string"

datatype log_entry =
    LogFetching string
  | WarnFetchRetry string nat
  | ErrorFetchFailed string
  | LogConverting string
  | WarnConvertRetry string nat
  | ErrorConvertFailed string
  | LogConvertingFetched string
  | ErrorConvertingContent
  | LogFetchingForTitle string
  | LogFoundTitle string
  | LogNoTitle
  | LogSaved string
  | ErrorProcessing string
  | LogProgress nat nat

record world =
  attempts :: "string \<Rightarrow> nat"
  files :: "(string \<times> string) list"
  logs :: "log_entry list"
  clock :: nat

definition console :: "log_entry \<Rightarrow> world \<Rightarrow> world" where
  "console entry w = w\<lparr> logs := logs w @ [entry] \<rparr>"

definition sleep :: "nat \<Rightarrow> world \<Rightarrow> world" where
  "sleep ms w = w\<lparr> clock := clock w + ms \<rparr>"

definition axios_get :: "collaborators \<Rightarrow> world \<Rightarrow> string \<Rightarrow> (js_error + response) \<times> world" where
  "axios_get N w url =
     (server N url (attempts w url), w\<lparr> attempts := (attempts w)(url := Suc (attempts w url)) \<rparr>)"

subsection \<open>fetchHtmlContent\<close>

text \<open>The try block: the request, and the throw on a status other than 200.\<close>

definition fetch_try :: "collaborators \<Rightarrow> world \<Rightarrow> string \<Rightarrow> (js_error + string) \<times> world" where
  "fetch_try N w url =
     (case axios_get N (console (LogFetching url) w) url of
        (Inl e, w') \<Rightarrow> (Inl e, w')
      | (Inr resp, w') \<Rightarrow>
          if status resp \<noteq> 200
          then (Inl (Thrown (''Failed to fetch HTML content: '' @ statusText resp)), w')
          else (Inr (data resp), w'))"

function fetchHtmlContent ::
  "collaborators \<Rightarrow> Config \<Rightarrow> world \<Rightarrow> string \<Rightarrow> nat \<Rightarrow> (js_error + string) \<times> world" where
  "fetchHtmlContent N config w url retryCount =
     (case fetch_try N w url of
        (Inr html, w') \<Rightarrow> (Inr html, w')
      | (Inl e, w') \<Rightarrow>
          if retryCount < retryAttempts config
          then fetchHtmlContent N config
                 (sleep (retryDelay config) (console (WarnFetchRetry url (retryCount + 1)) w'))
                 url (retryCount + 1)
          else (Inl e, console (ErrorFetchFailed url) w'))"
  by pat_completeness auto
termination
  by (relation "measure (\<lambda>(N, config, w, url, retryCount). retryAttempts config - retryCount)") auto

declare fetchHtmlContent.simps [simp del]

subsection \<open>The two conversions\<close>

definition newline :: string where
  "newline = [CHR 0x0A]"

definition finalContent :: "collaborators \<Rightarrow> Config \<Rightarrow> world \<Rightarrow> string \<Rightarrow> string \<Rightarrow> string" where
  "finalContent N config w url markdownContent =
     (if addSourceUrl (fileOptions config)
      then ''<!-- Source: '' @ url @ '' -->'' @ newline @ newline else []) @
     (if addDate (fileOptions config)
      then ''<!-- Generated: '' @ toISOString N (clock w) @ '' -->'' @ newline @ newline else []) @
     markdownContent"

text \<open>The conversion proper, with the throw on an empty result.\<close>

definition turndownConvert :: "collaborators \<Rightarrow> string \<Rightarrow> js_error + string" where
  "turndownConvert N html =
     (case turndown N html of
        Inl e \<Rightarrow> Inl e
      | Inr markdownContent \<Rightarrow>
          if markdownContent = [] then Inl (Thrown ''Failed to convert HTML to markdown'')
          else Inr markdownContent)"

definition convert_try ::
  "('d, 'e) dom \<Rightarrow> collaborators \<Rightarrow> Config \<Rightarrow> world \<Rightarrow> string \<Rightarrow> (js_error + string) \<times> world" where
  "convert_try L N config w url =
     (case fetchHtmlContent N config (console (LogConverting url) w) url 0 of
        (Inl e, w') \<Rightarrow> (Inl e, w')
      | (Inr htmlContent, w') \<Rightarrow>
          (case process L config htmlContent None of
             Inl e \<Rightarrow> (Inl e, w')
           | Inr processed \<Rightarrow>
               (case turndownConvert N processed of
                  Inl e \<Rightarrow> (Inl e, w')
                | Inr markdownContent \<Rightarrow>
                    (Inr (finalContent N config w' url markdownContent), w'))))"

function convertHtmlToMarkdown ::
  "('d, 'e) dom \<Rightarrow> collaborators \<Rightarrow> Config \<Rightarrow> world \<Rightarrow> string \<Rightarrow> nat
     \<Rightarrow> (js_error + string) \<times> world" where
  "convertHtmlToMarkdown L N config w url retryCount =
     (case convert_try L N config w url of
        (Inr content, w') \<Rightarrow> (Inr content, w')
      | (Inl e, w') \<Rightarrow>
          if retryCount < retryAttempts config
          then convertHtmlToMarkdown L N config
                 (sleep (retryDelay config) (console (WarnConvertRetry url (retryCount + 1)) w'))
                 url (retryCount + 1)
          else (Inl e, console (ErrorConvertFailed url) w'))"
  by pat_completeness auto
termination
  by (relation "measure (\<lambda>(L, N, config, w, url, retryCount). retryAttempts config - retryCount)")
     auto

declare convertHtmlToMarkdown.simps [simp del]

definition convertHtmlWithContent ::
  "collaborators \<Rightarrow> Config \<Rightarrow> world \<Rightarrow> string \<Rightarrow> string \<Rightarrow> (js_error + string) \<times> world" where
  "convertHtmlWithContent N config w url htmlContent =
     (let w1 = console (LogConvertingFetched url) w in
      case turndownConvert N htmlContent of
        Inl e \<Rightarrow> (Inl e, console ErrorConvertingContent w1)
      | Inr markdownContent \<Rightarrow> (Inr (finalContent N config w1 url markdownContent), w1))"

subsection \<open>processUrl and the batches\<close>

text \<open>
  The first half of the try block of \<^verbatim>\<open>processUrl\<close>: with the title policy the page is
  fetched and its title extracted. The result is the title and the page, or the error.
\<close>

definition titleStage ::
  "('d, 'e) dom \<Rightarrow> collaborators \<Rightarrow> Config \<Rightarrow> world \<Rightarrow> string
     \<Rightarrow> (js_error + string option \<times> string option) \<times> world" where
  "titleStage L N config w url =
     (if usePageTitlesForFilenames (fileOptions config) then
        (case fetchHtmlContent N config (console (LogFetchingForTitle url) w) url 0 of
           (Inl e, w') \<Rightarrow> (Inl e, w')
         | (Inr htmlContent, w') \<Rightarrow>
             (case extractPageTitle L htmlContent of
                Inl e \<Rightarrow> (Inl e, w')
              | Inr pageTitle \<Rightarrow>
                  (Inr (pageTitle, Some htmlContent),
                   console (if truthy pageTitle then LogFoundTitle (the pageTitle) else LogNoTitle) w')))
      else (Inr (None, None), w))"

text \<open>The second half: the markdown, from the page already fetched if there is one.\<close>

definition markdownStage ::
  "('d, 'e) dom \<Rightarrow> collaborators \<Rightarrow> Config \<Rightarrow> world \<Rightarrow> string \<Rightarrow> string option
     \<Rightarrow> (js_error + string) \<times> world" where
  "markdownStage L N config w url htmlContent =
     (if truthy htmlContent then
        (case process L config (the htmlContent) None of
           Inl e \<Rightarrow> (Inl e, w)
         | Inr processedHtml \<Rightarrow> convertHtmlWithContent N config w url processedHtml)
      else convertHtmlToMarkdown L N config w url 0)"

definition saveStage :: "collaborators \<Rightarrow> world \<Rightarrow> output_paths \<Rightarrow> string \<Rightarrow> js_error option \<times> world" where
  "saveStage N w paths markdown =
     (case ensureDir N (dirPath paths) of
        Some e \<Rightarrow> (Some e, w)
      | None \<Rightarrow>
          (case writeFile N (filePath paths) of
             Some e \<Rightarrow> (Some e, w)
           | None \<Rightarrow>
               (None, console (LogSaved (filePath paths))
                        (w\<lparr> files := files w @ [(filePath paths, markdown)] \<rparr>))))"

definition processUrl_try ::
  "('d, 'e) dom \<Rightarrow> collaborators \<Rightarrow> platform \<Rightarrow> Config \<Rightarrow> world \<Rightarrow> string
     \<Rightarrow> js_error option \<times> world" where
  "processUrl_try L N px config w url =
     (case titleStage L N config w url of
        (Inl e, w1) \<Rightarrow> (Some e, w1)
      | (Inr (pageTitle, htmlContent), w1) \<Rightarrow>
          (let paths = getOutputPaths px config url pageTitle in
           case markdownStage L N config w1 url htmlContent of
             (Inl e, w2) \<Rightarrow> (Some e, w2)
           | (Inr markdown, w2) \<Rightarrow> saveStage N w2 paths markdown))"

definition processUrl ::
  "('d, 'e) dom \<Rightarrow> collaborators \<Rightarrow> platform \<Rightarrow> Config \<Rightarrow> world \<Rightarrow> string \<Rightarrow> world" where
  "processUrl L N px config w url =
     (case processUrl_try L N px config w url of
        (Some e, w') \<Rightarrow> console (ErrorProcessing url) w'
      | (None, w') \<Rightarrow> w')"

text \<open>
  \<^verbatim>\<open>Promise.all\<close> over a batch: the jobs of a batch are run one after the other, in the
  order of the list.
\<close>

definition processBatch ::
  "('d, 'e) dom \<Rightarrow> collaborators \<Rightarrow> platform \<Rightarrow> Config \<Rightarrow> world \<Rightarrow> string list \<Rightarrow> world" where
  "processBatch L N px config w batch = foldl (processUrl L N px config) w batch"

text \<open>
  The loop \<^verbatim>\<open>for (i = 0; i < total; i += MAX_CONCURRENT)\<close>. With \<^verbatim>\<open>MAX_CONCURRENT\<close> zero the
  index never moves and the loop does not end: \<open>None\<close>.
\<close>

function batchLoop ::
  "('d, 'e) dom \<Rightarrow> collaborators \<Rightarrow> platform \<Rightarrow> Config \<Rightarrow> string list \<Rightarrow> nat \<Rightarrow> nat \<Rightarrow> world
     \<Rightarrow> world option" where
  "batchLoop L N px config urls i completed w =
     (if i < length urls then
        (if maxConcurrent config = 0 then None
         else
           (let batch = take (maxConcurrent config) (drop i urls);
                w' = processBatch L N px config w batch;
                completed' = completed + length batch
            in batchLoop L N px config urls (i + maxConcurrent config) completed'
                 (console (LogProgress completed' (length urls)) w')))
      else Some w)"
  by pat_completeness auto
termination
  by (relation "measure (\<lambda>(L, N, px, config, urls, i, completed, w). length urls - i)") auto

declare batchLoop.simps [simp del]

definition processUrlsInBatches ::
  "('d, 'e) dom \<Rightarrow> collaborators \<Rightarrow> platform \<Rightarrow> Config \<Rightarrow> world \<Rightarrow> string list \<Rightarrow> world option" where
  "processUrlsInBatches L N px config w urls = batchLoop L N px config urls 0 0 w"

section \<open>The libraries at concrete inputs\<close>

text \<open>
  To evaluate the path mapper at concrete URLs the parameters need values. The
  definitions of this section follow the published behaviour of the libraries:
  sanitize-filename removes the characters \<^verbatim>\<open>/ ? < > \ : * |\<close> and the double quote,
  removes control characters, empties a name of dots only and a reserved Windows device
  name, strips trailing dots and spaces and truncates to 255 bytes; \<^verbatim>\<open>path.join\<close> drops
  empty segments, joins with a slash and normalises; the \<^verbatim>\<open>URL\<close> constructor rejects a
  string with no scheme.
\<close>

definition illegalRe :: "char list" where
  "illegalRe = [CHR ''/'', CHR ''?'', CHR ''<'', CHR ''>'', CHR 0x5C, CHR '':'', CHR ''*'',
                CHR ''|'', CHR 0x22]"

definition controlRe :: "char \<Rightarrow> bool" where
  "controlRe c = (let n = (of_char c :: nat) in n \<le> 31 \<or> (128 \<le> n \<and> n \<le> 159))"

definition reservedRe :: "string \<Rightarrow> bool" where
  "reservedRe s = (s \<noteq> [] \<and> list_all (\<lambda>c. c = CHR ''.'') s)"

definition windowsReservedNames :: "string list" where
  "windowsReservedNames =
     [''con'', ''prn'', ''aux'', ''nul''] @
     map (\<lambda>d. ''com'' @ [d]) ''0123456789'' @ map (\<lambda>d. ''lpt'' @ [d]) ''0123456789''"

definition windowsReservedRe :: "string \<Rightarrow> bool" where
  "windowsReservedRe s =
     (takeWhile (\<lambda>c. c \<noteq> CHR ''.'') (toLowerCase s) \<in> set windowsReservedNames)"

definition windowsTrailingRe :: "string \<Rightarrow> string" where
  "windowsTrailingRe s = rev (dropWhile (\<lambda>c. c = CHR ''.'' \<or> c = CHR '' '') (rev s))"

definition utf8Length :: "char \<Rightarrow> nat" where
  "utf8Length c = (if (of_char c :: nat) < 128 then 1 else 2)"

fun truncate :: "nat \<Rightarrow> string \<Rightarrow> string" where
  "truncate n [] = []"
| "truncate n (c # cs) =
     (if utf8Length c \<le> n then c # truncate (n - utf8Length c) cs else [])"

definition sanitize_filename :: "string \<Rightarrow> string" where
  "sanitize_filename s =
     (let s1 = filter (\<lambda>c. c \<notin> set illegalRe) s;
          s2 = filter (\<lambda>c. \<not> controlRe c) s1;
          s3 = (if reservedRe s2 then [] else s2);
          s4 = (if windowsReservedRe s3 then [] else s3);
          s5 = windowsTrailingRe s4
      in truncate 255 s5)"

text \<open>\<^verbatim>\<open>path.posix.normalize\<close>, segment by segment, on a stack held in reverse.\<close>

fun normalizeSegments :: "bool \<Rightarrow> string list \<Rightarrow> string list \<Rightarrow> string list" where
  "normalizeSegments allowAboveRoot [] stack = rev stack"
| "normalizeSegments allowAboveRoot (seg # segs) stack =
     (if seg = [] \<or> seg = ''.'' then normalizeSegments allowAboveRoot segs stack
      else if seg = ''..'' then
        (case stack of
           seg' # rest \<Rightarrow>
             (if seg' = ''..'' then normalizeSegments allowAboveRoot segs (seg # stack)
              else normalizeSegments allowAboveRoot segs rest)
         | [] \<Rightarrow>
             (if allowAboveRoot then normalizeSegments allowAboveRoot segs [seg]
              else normalizeSegments allowAboveRoot segs []))
      else normalizeSegments allowAboveRoot segs (seg # stack))"

definition posix_normalize :: "string \<Rightarrow> string" where
  "posix_normalize p =
     (if p = [] then ''.''
      else
        (let isAbsolute = (hd p = CHR ''/'');
             trailingSeparator = (last p = CHR ''/'');
             q = join ''/'' (normalizeSegments (\<not> isAbsolute) (split_on CHR ''/'' p) [])
         in if q = [] then (if isAbsolute then ''/'' else if trailingSeparator then ''./'' else ''.'')
            else (if isAbsolute then ''/'' else []) @ q @ (if trailingSeparator then ''/'' else [])))"

definition posix_join :: "string list \<Rightarrow> string" where
  "posix_join args =
     (let joined = join ''/'' (filter (\<lambda>a. a \<noteq> []) args)
      in if joined = [] then ''.'' else posix_normalize joined)"

text \<open>
  \<^verbatim>\<open>URLSearchParams.get\<close> on a query without percent escapes and plus signs: the value of
  the first pair with that name.
\<close>

definition splitPair :: "string \<Rightarrow> string \<times> string" where
  "splitPair kv = (takeWhile (\<lambda>c. c \<noteq> CHR ''='') kv, drop 1 (dropWhile (\<lambda>c. c \<noteq> CHR ''='') kv))"

definition searchParams_plain :: "string \<Rightarrow> string \<Rightarrow> string option" where
  "searchParams_plain q name =
     map_of (map splitPair (filter (\<lambda>kv. kv \<noteq> []) (split_on CHR ''&'' (stripPrefix ''?'' q)))) name"

text \<open>
  The \<^verbatim>\<open>URL\<close> constructor on the URLs of the examples below. Every other string the
  examples use has no scheme, and the constructor throws on it.
\<close>

definition URL_examples :: "string \<Rightarrow> url_obj option" where
  "URL_examples u =
     (if u = ''https://example.com/about/'' then
        Some \<lparr> hostname = ''example.com'', pathname = ''/about/'', search = '''' \<rparr>
      else if u = ''https://example.com/'' then
        Some \<lparr> hostname = ''example.com'', pathname = ''/'', search = '''' \<rparr>
      else if u = ''https://example.com/products?id=123&category=books'' then
        Some \<lparr> hostname = ''example.com'', pathname = ''/products'',
               search = ''?id=123&category=books'' \<rparr>
      else if u = ''https://example.com/products?id=124&category=books'' then
        Some \<lparr> hostname = ''example.com'', pathname = ''/products'',
               search = ''?id=124&category=books'' \<rparr>
      else if u = ''https://example.com/docs/.../page'' then
        Some \<lparr> hostname = ''example.com'', pathname = ''/docs/.../page'', search = '''' \<rparr>
      else None)"

definition node :: platform where
  "node = \<lparr> URL_new = URL_examples, searchParams_get = searchParams_plain,
            sanitize = sanitize_filename, path_join = posix_join \<rparr>"

section \<open>A small DOM for the examples\<close>

text \<open>
  To run \<^verbatim>\<open>process\<close> and \<^verbatim>\<open>extractPageTitle\<close> on concrete pages the DOM library needs a
  value too. The documents of the examples are trees of elements (each with an identity,
  a tag, its attributes in order and its children) and text nodes; the state of a
  document is the list of the children of the document node. Selectors are lists of
  simple selectors (\<^verbatim>\<open>*\<close>, a tag, \<^verbatim>\<open>.class\<close>, \<^verbatim>\<open>#id\<close>, \<^verbatim>\<open>tag[name="value"]\<close>); any other
  string an example uses is not a selector, and the query throws a \<^verbatim>\<open>SyntaxError\<close>.
  The pages of the examples have no \<^verbatim>\<open>alt\<close> attribute, so the replacement in \<^verbatim>\<open>alt\<close>
  texts has nothing to do.
\<close>

datatype dom_node = Element nat string "(string \<times> string) list" "dom_node list" | Text string

fun elementsOf :: "dom_node \<Rightarrow> dom_node list" where
  "elementsOf (Text s) = []"
| "elementsOf (Element i t a cs) = Element i t a cs # concat (map elementsOf cs)"

definition allElements :: "dom_node list \<Rightarrow> dom_node list" where
  "allElements d = concat (map elementsOf d)"

fun ident :: "dom_node \<Rightarrow> nat option" where
  "ident (Text s) = None"
| "ident (Element i t a cs) = Some i"

fun tagOf :: "dom_node \<Rightarrow> string" where
  "tagOf (Text s) = []"
| "tagOf (Element i t a cs) = t"

fun attrsOf :: "dom_node \<Rightarrow> (string \<times> string) list" where
  "attrsOf (Text s) = []"
| "attrsOf (Element i t a cs) = a"

fun childrenOf :: "dom_node \<Rightarrow> dom_node list" where
  "childrenOf (Text s) = []"
| "childrenOf (Element i t a cs) = cs"

definition elementById :: "dom_node list \<Rightarrow> nat \<Rightarrow> dom_node option" where
  "elementById d i = find (\<lambda>n. ident n = Some i) (allElements d)"

fun textOf :: "dom_node \<Rightarrow> string" where
  "textOf (Text s) = s"
| "textOf (Element i t a cs) = concat (map textOf cs)"

fun removeNode :: "nat \<Rightarrow> dom_node \<Rightarrow> dom_node" where
  "removeNode i (Text s) = Text s"
| "removeNode i (Element j t a cs) =
     Element j t a (map (removeNode i) (filter (\<lambda>c. ident c \<noteq> Some i) cs))"

text \<open>The first child of element \<open>i\<close> is put in front of it, among its siblings.\<close>

definition hoistChild :: "nat \<Rightarrow> dom_node \<Rightarrow> dom_node list" where
  "hoistChild i c =
     (case c of
        Element k t a (g # gs) \<Rightarrow> if k = i then [g, Element k t a gs] else [c]
      | _ \<Rightarrow> [c])"

fun hoist :: "nat \<Rightarrow> dom_node \<Rightarrow> dom_node" where
  "hoist i (Text s) = Text s"
| "hoist i (Element j t a cs) = Element j t a (concat (map (hoistChild i) (map (hoist i) cs)))"

fun mapElement :: "nat \<Rightarrow> ((string \<times> string) list \<Rightarrow> (string \<times> string) list) \<Rightarrow> dom_node \<Rightarrow> dom_node" where
  "mapElement i f (Text s) = Text s"
| "mapElement i f (Element j t a cs) =
     Element j t (if j = i then f a else a) (map (mapElement i f) cs)"

definition putAttr :: "string \<Rightarrow> string \<Rightarrow> (string \<times> string) list \<Rightarrow> (string \<times> string) list" where
  "putAttr name v a =
     (if name \<in> set (map fst a) then map (\<lambda>(k, w). if k = name then (k, v) else (k, w)) a
      else a @ [(name, v)])"

subsection \<open>Selectors\<close>

datatype simple_selector =
  AnySel | TagSel string | ClassSel string | IdSel string | TagAttrSel string string string

definition identChar :: "char \<Rightarrow> bool" where
  "identChar c =
     (let n = (of_char c :: nat)
      in (97 \<le> n \<and> n \<le> 122) \<or> (65 \<le> n \<and> n \<le> 90) \<or> (48 \<le> n \<and> n \<le> 57) \<or> n = 45 \<or> n = 95)"

definition identName :: "string \<Rightarrow> bool" where
  "identName s = (s \<noteq> [] \<and> list_all identChar s)"

definition parseAttrSelector :: "string \<Rightarrow> simple_selector option" where
  "parseAttrSelector s =
     (let tag = takeWhile (\<lambda>c. c \<noteq> CHR ''['') s;
          r1 = drop (Suc (length tag)) s;
          name = takeWhile (\<lambda>c. c \<noteq> CHR ''='') r1;
          r2 = drop (Suc (length name)) r1;
          v = takeWhile (\<lambda>c. c \<noteq> CHR 0x22) (drop 1 r2)
      in if identName tag \<and> identName name
            \<and> s = tag @ ''['' @ name @ ''='' @ [CHR 0x22] @ v @ [CHR 0x22] @ '']''
         then Some (TagAttrSel tag name v) else None)"

definition parseSimple :: "string \<Rightarrow> simple_selector option" where
  "parseSimple s =
     (if s = ''*'' then Some AnySel
      else if identName s then Some (TagSel s)
      else if s \<noteq> [] \<and> hd s = CHR ''.'' \<and> identName (tl s) then Some (ClassSel (tl s))
      else if s \<noteq> [] \<and> hd s = CHR ''#'' \<and> identName (tl s) then Some (IdSel (tl s))
      else parseAttrSelector s)"

fun parseAll :: "string list \<Rightarrow> simple_selector list option" where
  "parseAll [] = Some []"
| "parseAll (s # ss) =
     (case parseSimple s of
        None \<Rightarrow> None
      | Some x \<Rightarrow> (case parseAll ss of None \<Rightarrow> None | Some xs \<Rightarrow> Some (x # xs)))"

definition parseSelector :: "string \<Rightarrow> simple_selector list option" where
  "parseSelector s = parseAll (map trim (split_on CHR '','' s))"

fun matchesSimple :: "simple_selector \<Rightarrow> dom_node \<Rightarrow> bool" where
  "matchesSimple AnySel n = True"
| "matchesSimple (TagSel t) n = (tagOf n = t)"
| "matchesSimple (ClassSel c) n =
     (case map_of (attrsOf n) ''class'' of
        None \<Rightarrow> False
      | Some v \<Rightarrow> c \<in> set (split_on CHR '' '' v))"
| "matchesSimple (IdSel i) n = (map_of (attrsOf n) ''id'' = Some i)"
| "matchesSimple (TagAttrSel t k v) n = (tagOf n = t \<and> map_of (attrsOf n) k = Some v)"

definition selectAll :: "dom_node list \<Rightarrow> string \<Rightarrow> js_error + nat list" where
  "selectAll d s =
     (case parseSelector s of
        None \<Rightarrow> Inl SyntaxError
      | Some sels \<Rightarrow>
          Inr (List.map_filter ident
                 (filter (\<lambda>n. list_ex (\<lambda>sel. matchesSimple sel n) sels) (allElements d))))"

subsection \<open>Serialization\<close>

definition voidTags :: "string list" where
  "voidTags = [''img'', ''meta'', ''br'', ''hr'', ''input'', ''link'', ''source'']"

definition attrText :: "(string \<times> string) \<Rightarrow> string" where
  "attrText kv = '' '' @ fst kv @ ''='' @ [CHR 0x22] @ snd kv @ [CHR 0x22]"

fun serialize :: "dom_node \<Rightarrow> string" where
  "serialize (Text s) = s"
| "serialize (Element i t a cs) =
     ''<'' @ t @ concat (map attrText a) @ ''>'' @
     (if t \<in> set voidTags then [] else concat (map serialize cs) @ ''</'' @ t @ ''>'')"

subsection \<open>The library\<close>

definition toy_hasParent :: "dom_node list \<Rightarrow> nat \<Rightarrow> bool" where
  "toy_hasParent d i = (elementById d i \<noteq> None)"

definition toy_remove :: "dom_node list \<Rightarrow> nat \<Rightarrow> js_error + dom_node list" where
  "toy_remove d i = Inr (map (removeNode i) (filter (\<lambda>c. ident c \<noteq> Some i) d))"

text \<open>A document node takes one element and no text: hoisting out of the root throws.\<close>

definition toy_moveFirstChild :: "dom_node list \<Rightarrow> nat \<Rightarrow> js_error + dom_node list" where
  "toy_moveFirstChild d i =
     (if Some i \<in> set (map ident d) then Inl DOMException else Inr (map (hoist i) d))"

definition toy_outerHTML :: "dom_node list \<Rightarrow> js_error + string" where
  "toy_outerHTML d =
     (case filter (\<lambda>n. ident n \<noteq> None) d of
        [] \<Rightarrow> Inl TypeError
      | root # rest \<Rightarrow> Inr (serialize root))"

definition toy_getAttribute :: "dom_node list \<Rightarrow> nat \<Rightarrow> string \<Rightarrow> string option" where
  "toy_getAttribute d i name =
     (case elementById d i of None \<Rightarrow> None | Some n \<Rightarrow> map_of (attrsOf n) name)"

definition toy_origin :: "string \<Rightarrow> js_error + string" where
  "toy_origin u =
     (case URL_examples u of
        None \<Rightarrow> Inl TypeError
      | Some urlObj \<Rightarrow> Inr (''https://'' @ hostname urlObj))"

text \<open>The pages of the examples, as jsdom parses them.\<close>

definition page :: "dom_node list \<Rightarrow> dom_node list \<Rightarrow> dom_node list" where
  "page headNodes bodyNodes =
     [Element 0 ''html'' [] [Element 1 ''head'' [] headNodes, Element 2 ''body'' [] bodyNodes]]"

definition html_hi :: string where
  "html_hi = ''<p>hi</p>''"

definition html_blank_title :: string where
  "html_blank_title =
     ''<html><head><title> </title></head><body><h1>Hello</h1></body></html>''"

definition html_titled :: string where
  "html_titled =
     ''<html><head><title> About us </title></head><body><h1>Hello</h1></body></html>''"

definition html_links :: string where
  "html_links =
     ''<div class='' @ [CHR 0x22] @ ''wrapper'' @ [CHR 0x22] @ ''><img src='' @ [CHR 0x22] @
     ''/a.png'' @ [CHR 0x22] @ ''><a href='' @ [CHR 0x22] @ ''/x'' @ [CHR 0x22] @
     ''>x</a></div><nav>menu</nav>''"

definition html_empty :: string where
  "html_empty = ''<html><head></head><body></body></html>''"

definition toy_parse :: "string \<Rightarrow> js_error + dom_node list" where
  "toy_parse html =
     (if html = html_hi then
        Inr (page [] [Element 3 ''p'' [] [Text ''hi'']])
      else if html = html_empty then
        Inr (page [] [])
      else if html = html_blank_title then
        Inr (page [Element 3 ''title'' [] [Text '' '']] [Element 4 ''h1'' [] [Text ''Hello'']])
      else if html = html_titled then
        Inr (page [Element 3 ''title'' [] [Text '' About us '']] [Element 4 ''h1'' [] [Text ''Hello'']])
      else if html = html_links then
        Inr (page []
               [Element 3 ''div'' [(''class'', ''wrapper'')]
                  [Element 4 ''img'' [(''src'', ''/a.png'')] [],
                   Element 5 ''a'' [(''href'', ''/x'')] [Text ''x'']],
                Element 6 ''nav'' [] [Text ''menu'']])
      else Inl (LibraryError ''not a page of the examples''))"

definition toy_dom :: "(dom_node list, nat) dom" where
  "toy_dom =
     \<lparr> JSDOM_new = toy_parse,
       querySelector = (\<lambda>d s. case selectAll d s of
                                 Inl e \<Rightarrow> Inl e
                               | Inr ids \<Rightarrow> Inr (case ids of [] \<Rightarrow> None | i # rest \<Rightarrow> Some i)),
       querySelectorAll = selectAll,
       getElementsByTagName =
         (\<lambda>d t. List.map_filter ident (filter (\<lambda>n. tagOf n = t) (allElements d))),
       textContent = (\<lambda>d i. case elementById d i of None \<Rightarrow> [] | Some n \<Rightarrow> textOf n),
       getAttribute = toy_getAttribute,
       setAttribute = (\<lambda>d i name v. Inr (map (mapElement i (putAttr name v)) d)),
       attributeNames = (\<lambda>d i. case elementById d i of None \<Rightarrow> [] | Some n \<Rightarrow> map fst (attrsOf n)),
       removeAttribute = (\<lambda>d i name. map (mapElement i (filter (\<lambda>kv. fst kv \<noteq> name))) d),
       hasParentNode = toy_hasParent,
       removeFromParent = toy_remove,
       childCount = (\<lambda>d i. case elementById d i of None \<Rightarrow> 0 | Some n \<Rightarrow> length (childrenOf n)),
       moveFirstChildBefore = toy_moveFirstChild,
       outerHTML = toy_outerHTML,
       URL_origin = toy_origin,
       replaceMarkdownImage = (\<lambda>origin alt. alt) \<rparr>"

section \<open>A small web for the examples\<close>










section \<open>Collaborators for the examples\<close>




section \<open>Reference notions for the properties\<close>

text \<open>
  The path policy of the specification: the domain-subfolder switch and the two filename
  switches of \<^verbatim>\<open>fileOptions\<close>.
\<close>

definition policy :: "Config \<Rightarrow> bool \<times> bool \<times> bool" where
  "policy config =
     (useDomainSubfolders (fileOptions config),
      usePageTitlesForFilenames (fileOptions config),
      preserveUrlFilenames (fileOptions config))"


text \<open>The default configuration with the three policy switches set.\<close>

definition withPolicy :: "bool \<Rightarrow> bool \<Rightarrow> bool \<Rightarrow> Config" where
  "withPolicy d t p =
     DEFAULT_CONFIG\<lparr> fileOptions := (fileOptions DEFAULT_CONFIG)
       \<lparr> useDomainSubfolders := d, usePageTitlesForFilenames := t, preserveUrlFilenames := p \<rparr> \<rparr>"

text \<open>What \<^verbatim>\<open>parseUrl\<close> does to the name it has built: sanitize, fall back, add the extension.\<close>

definition finishName :: "platform \<Rightarrow> string \<Rightarrow> string" where
  "finishName px name =
     (let n = sanitize px name in if n = [] then ''index'' else n) @ ''.md''"

text \<open>
  Two DOM libraries that agree on every operation \<^verbatim>\<open>process\<close> uses outside
  \<^verbatim>\<open>absolutizeMediaUrls\<close>, and on removing an attribute whose name is not kept. They may
  differ in \<^verbatim>\<open>setAttribute\<close>, \<^verbatim>\<open>getElementsByTagName\<close>, the origin of a URL, the
  replacement in \<^verbatim>\<open>alt\<close> texts, and in what removing \<^verbatim>\<open>href\<close>, \<^verbatim>\<open>src\<close>, \<^verbatim>\<open>alt\<close> or
  \<^verbatim>\<open>title\<close> would do.
\<close>

definition sameRewriter :: "('d, 'e) dom \<Rightarrow> ('d, 'e) dom \<Rightarrow> bool" where
  "sameRewriter L L' =
     (JSDOM_new L' = JSDOM_new L \<and> querySelector L' = querySelector L
      \<and> querySelectorAll L' = querySelectorAll L \<and> textContent L' = textContent L
      \<and> getAttribute L' = getAttribute L \<and> attributeNames L' = attributeNames L
      \<and> (\<forall>d el name. name \<notin> set keepAttributes \<longrightarrow>
             removeAttribute L' d el name = removeAttribute L d el name)
      \<and> hasParentNode L' = hasParentNode L \<and> removeFromParent L' = removeFromParent L
      \<and> childCount L' = childCount L \<and> moveFirstChildBefore L' = moveFirstChildBefore L
      \<and> outerHTML L' = outerHTML L)"

text \<open>A request fails when \<^verbatim>\<open>axios.get\<close> throws or the status is not 200.\<close>

definition failing :: "js_error + response \<Rightarrow> bool" where
  "failing r = (case r of Inl e \<Rightarrow> True | Inr resp \<Rightarrow> status resp \<noteq> 200)"





text \<open>The \<open>k\<close> requests for a URL numbered from \<open>a\<close> on all fail.\<close>

definition failsFrom :: "collaborators \<Rightarrow> string \<Rightarrow> nat \<Rightarrow> nat \<Rightarrow> bool" where
  "failsFrom N url a k = list_all (\<lambda>j. failing (server N url (a + j))) [0..<k]"







section \<open>Properties of the path mapper\<close>

subsection \<open>Auxiliary facts\<close>





lemma parseUrl_policy:
  assumes "preserveUrlFilenames (fileOptions c1) = preserveUrlFilenames (fileOptions c2)"
  shows "parseUrl px c1 url = parseUrl px c2 url"
proof (cases "URL_new px url")
  case None
  then show ?thesis by (simp add: parseUrl_def)
next
  case (Some u)
  have "queryName px c1 (search u) n = queryName px c2 (search u) n" for n
    using assms by (simp add: queryName_def)
  then show ?thesis using Some by (simp add: parseUrl_def parseUrl_try_def)
qed

lemma set_truncate: "set (truncate n s) \<subseteq> set s"
  by (induction s arbitrary: n) auto

lemma set_windowsTrailingRe: "set (windowsTrailingRe s) \<subseteq> set s"
  unfolding windowsTrailingRe_def using set_dropWhileD by fastforce

lemma sanitize_filename_legal: "set (sanitize_filename s) \<inter> set illegalRe = {}"
proof -
  define s2 where "s2 = filter (\<lambda>c. \<not> controlRe c) (filter (\<lambda>c. c \<notin> set illegalRe) s)"
  have s2: "set s2 \<inter> set illegalRe = {}" by (auto simp: s2_def)
  define s4 where "s4 = (let s3 = (if reservedRe s2 then [] else s2)
                         in if windowsReservedRe s3 then [] else s3)"
  have "set s4 \<subseteq> set s2" by (auto simp: s4_def Let_def)
  moreover have "set (truncate 255 (windowsTrailingRe s4)) \<subseteq> set s4"
    using set_truncate set_windowsTrailingRe by blast
  moreover have "sanitize_filename s = truncate 255 (windowsTrailingRe s4)"
    by (simp add: sanitize_filename_def s4_def s2_def Let_def)
  ultimately show ?thesis using s2 by auto
qed

lemma node_simps:
  "URL_new node = URL_examples" "searchParams_get node = searchParams_plain"
  "sanitize node = sanitize_filename" "path_join node = posix_join"
  by (simp_all add: node_def)

subsection \<open>Evaluation of the libraries at the example inputs\<close>

lemmas string_defs =
  startsWith_def endsWith_def toLowerCase_def toLowerChar_def stripPrefix_def
  stripTrailingSlash_def trimSlashes_def

lemmas sanitize_defs =
  sanitize_filename_def illegalRe_def controlRe_def reservedRe_def windowsReservedRe_def
  windowsReservedNames_def windowsTrailingRe_def utf8Length_def toLowerCase_def toLowerChar_def

lemmas parse_defs =
  parseUrl_def parseUrl_try_def parseUrl_catch_def candidateParts_def candidateName_def
  stripExtension_def fileExtensions_def queryName_def sanitizedUrl_def truthy_def


lemma sanitize_about: "sanitize_filename ''about'' = ''about''"
  by (simp add: sanitize_defs Let_def)

lemma sanitize_example_com: "sanitize_filename ''example.com'' = ''example.com''"
  by (simp add: sanitize_defs Let_def)

lemma sanitize_index: "sanitize_filename ''index'' = ''index''"
  by (simp add: sanitize_defs Let_def)

lemma sanitize_docs: "sanitize_filename ''docs'' = ''docs''"
  by (simp add: sanitize_defs Let_def)

lemma sanitize_page: "sanitize_filename ''page'' = ''page''"
  by (simp add: sanitize_defs Let_def)

lemma sanitize_x: "sanitize_filename ''x'' = ''x''"
  by (simp add: sanitize_defs Let_def)

lemma sanitize_y: "sanitize_filename ''y'' = ''y''"
  by (simp add: sanitize_defs Let_def)

lemma sanitize_dots: "sanitize_filename ''...'' = []"
  by (simp add: sanitize_defs Let_def)

lemma sanitize_empty: "sanitize_filename [] = []"
  by (simp add: sanitize_defs Let_def)





lemma parseUrl_about:
  "parseUrl node config ''https://example.com/about/''
   = \<lparr> domain = ''example.com'', pathParts = [], filename = ''about.md'',
       originalUrl = ''https://example.com/about/'' \<rparr>"
  by (simp add: node_simps URL_examples_def parse_defs string_defs sanitize_about Let_def)

lemma parseUrl_root:
  "parseUrl node config ''https://example.com/''
   = \<lparr> domain = ''example.com'', pathParts = [], filename = ''index.md'',
       originalUrl = ''https://example.com/'' \<rparr>"
  by (simp add: node_simps URL_examples_def parse_defs string_defs sanitize_index Let_def)

lemma parseUrl_dots:
  "parseUrl node config ''https://example.com/docs/.../page''
   = \<lparr> domain = ''example.com'', pathParts = [''docs'', ''...''], filename = ''page.md'',
       originalUrl = ''https://example.com/docs/.../page'' \<rparr>"
  by (simp add: node_simps URL_examples_def parse_defs string_defs sanitize_page Let_def)

lemma parseUrl_no_scheme:
  "parseUrl node config ''example.com//x/y''
   = \<lparr> domain = ''example.com'', pathParts = [[], ''x''], filename = ''y.md'',
       originalUrl = ''example.com//x/y'' \<rparr>"
  by (simp add: node_simps URL_examples_def parse_defs string_defs sanitize_y Let_def)






lemma withPolicy_simps:
  "useDomainSubfolders (fileOptions (withPolicy d t p)) = d"
  "usePageTitlesForFilenames (fileOptions (withPolicy d t p)) = t"
  "preserveUrlFilenames (fileOptions (withPolicy d t p)) = p"
  "outputDir (withPolicy d t p) = ''dist''"
  by (simp_all add: withPolicy_def DEFAULT_CONFIG_def)

subsection \<open>The claims on the path mapper\<close>

text \<open>
  C1. The path mapping is deterministic. The model is a function of the libraries, the
  configuration, the URL and the title: it reads no clock and no other state. Of the
  configuration it reads the policy (and the output root for the joined paths): two
  configurations with the same policy give the same directory segments below the root
  and the same filename, and with the same root the same paths.
\<close>

theorem path_mapping_deterministic:
  assumes "policy c1 = policy c2"
  shows "tl (dirParts px c1 url) = tl (dirParts px c2 url)
       \<and> outputFilename px c1 url title = outputFilename px c2 url title
       \<and> (outputDir c1 = outputDir c2 \<longrightarrow>
            getOutputPaths px c1 url title = getOutputPaths px c2 url title)"
proof -
  from assms have d: "useDomainSubfolders (fileOptions c1) = useDomainSubfolders (fileOptions c2)"
    and t: "usePageTitlesForFilenames (fileOptions c1) = usePageTitlesForFilenames (fileOptions c2)"
    and p: "preserveUrlFilenames (fileOptions c1) = preserveUrlFilenames (fileOptions c2)"
    by (simp_all add: policy_def)
  have pu: "parseUrl px c1 url = parseUrl px c2 url" by (rule parseUrl_policy [OF p])
  have f: "outputFilename px c1 url title = outputFilename px c2 url title"
    by (simp add: outputFilename_def pu t p)
  have tls: "tl (dirParts px c1 url) = tl (dirParts px c2 url)"
    by (simp add: dirParts_def pu d Let_def)
  have "dirParts px c1 url = dirParts px c2 url" if "outputDir c1 = outputDir c2"
    using that by (simp add: dirParts_def pu d Let_def)
  then show ?thesis using f tls by (simp add: getOutputPaths_def)
qed

theorem path_mapping_deterministic_witness:
  "policy DEFAULT_CONFIG = policy (DEFAULT_CONFIG\<lparr> timeout := 1, retryAttempts := 7 \<rparr>)
   \<and> getOutputPaths node DEFAULT_CONFIG ''https://example.com/about/'' None
     = getOutputPaths node (DEFAULT_CONFIG\<lparr> timeout := 1, retryAttempts := 7 \<rparr>)
         ''https://example.com/about/'' None"
  using path_mapping_deterministic
    [of DEFAULT_CONFIG "DEFAULT_CONFIG\<lparr> timeout := 1, retryAttempts := 7 \<rparr>" node
        "''https://example.com/about/''" None]
  by (simp add: policy_def)





lemma parseUrl_filename_cases:
  "filename (parseUrl px config url)
   = (case URL_new px url of
        Some u \<Rightarrow> finishName px (queryName px config (search u) (candidateName u))
      | None \<Rightarrow> filename (parseUrl_catch px url))"
  by (simp add: parseUrl_def parseUrl_try_def finishName_def Let_def split: option.splits)

lemma finishName_safe:
  assumes "\<And>s. set (sanitize px s) \<inter> B = {}" and "set ''index.md'' \<inter> B = {}"
  shows "set (finishName px n) \<inter> B = {}"
proof -
  have "set (sanitize px n) \<inter> B = {}" by (rule assms(1))
  then show ?thesis using assms(2) by (auto simp: finishName_def Let_def)
qed

lemma parseUrl_filename_safe:
  assumes "\<And>s. set (sanitize px s) \<inter> B = {}" and "set ''index.md'' \<inter> B = {}"
  shows "set (filename (parseUrl px config url)) \<inter> B = {}"
proof (cases "URL_new px url")
  case None
  have "set (sanitize px n) \<inter> B = {}" for n by (rule assms(1))
  then show ?thesis using None assms(2)
    by (auto simp: parseUrl_def parseUrl_catch_def Let_def)
next
  case (Some u)
  then show ?thesis using finishName_safe [OF assms]
    by (simp add: parseUrl_filename_cases)
qed

lemma parseUrl_filename_nonempty: "filename (parseUrl px config url) \<noteq> []"
  by (simp add: parseUrl_def parseUrl_try_def parseUrl_catch_def Let_def split: option.splits)

text \<open>
  C3, amended. Let \<open>B\<close> be any set of characters that \<^verbatim>\<open>sanitize\<close> never returns and that
  has no character of \<^verbatim>\<open>index.md\<close> (the path separators and the reserved characters
  of the file system). For every URL, parsed or not, every directory segment below the
  output root and the filename are free of \<open>B\<close>, and the filename is not empty. In the
  branch of a parsed URL the filename is a non-empty name followed by \<^verbatim>\<open>.md\<close>, the name
  being \<^verbatim>\<open>index\<close> when sanitization leaves nothing. A directory segment may be empty:
  no segment but the filename falls back to \<^verbatim>\<open>index\<close>. The only call that can throw,
  the \<^verbatim>\<open>URL\<close> constructor, is caught: the result is then that of the catch block.
\<close>

theorem path_segments_sanitized:
  assumes san: "\<And>s. set (sanitize px s) \<inter> B = {}"
    and lit: "set ''index.md'' \<inter> B = {}"
  shows "(\<forall>seg \<in> set (tl (dirParts px config url)). set seg \<inter> B = {})
       \<and> outputFilename px config url title \<noteq> []
       \<and> set (outputFilename px config url title) \<inter> B = {}
       \<and> (\<forall>u. URL_new px url = Some u \<longrightarrow>
             (\<exists>stem. stem \<noteq> [] \<and> filename (parseUrl px config url) = stem @ ''.md''))
       \<and> (\<forall>u. URL_new px url = Some u
               \<and> sanitize px (queryName px config (search u) (candidateName u)) = []
             \<longrightarrow> filename (parseUrl px config url) = ''index.md'')
       \<and> (URL_new px url = None \<longrightarrow> parseUrl px config url = parseUrl_catch px url)"
proof -
  have segs: "\<forall>seg \<in> set (tl (dirParts px config url)). set seg \<inter> B = {}"
    using san by (auto simp: dirParts_def Let_def)
  have ne: "outputFilename px config url title \<noteq> []"
    by (simp add: outputFilename_def Let_def parseUrl_filename_nonempty)
  have "set (take 100 (sanitize px t)) \<inter> B = {}" for t
    using san [of t] set_take_subset [of 100 "sanitize px t"] by blast
  then have safe: "set (outputFilename px config url title) \<inter> B = {}"
    using lit parseUrl_filename_safe [OF san lit, of config url] san
    by (auto simp: outputFilename_def Let_def)
  have stem: "\<exists>stem. stem \<noteq> [] \<and> filename (parseUrl px config url) = stem @ ''.md''"
    if "URL_new px url = Some u" for u
    using that by (auto simp: parseUrl_filename_cases finishName_def Let_def)
  have idx: "filename (parseUrl px config url) = ''index.md''"
    if "URL_new px url = Some u"
      and "sanitize px (queryName px config (search u) (candidateName u)) = []" for u
    using that by (simp add: parseUrl_filename_cases finishName_def)
  have "URL_new px url = None \<longrightarrow> parseUrl px config url = parseUrl_catch px url"
    by (simp add: parseUrl_def)
  with segs ne safe stem idx show ?thesis by blast
qed

theorem path_segments_sanitized_witness:
  "set (sanitize node ''a/b'') \<inter> set illegalRe = {}
   \<and> tl (dirParts node (withPolicy True False False) ''https://example.com/docs/.../page'')
      = [''example.com'', ''docs'', []]
   \<and> outputFilename node (withPolicy True False False) ''https://example.com/docs/.../page'' None \<noteq> []
   \<and> set (outputFilename node (withPolicy True False False) ''https://example.com/docs/.../page'' None)
        \<inter> set illegalRe = {}"
  using path_segments_sanitized [of node "set illegalRe" "withPolicy True False False"
      "''https://example.com/docs/.../page''" None] sanitize_filename_legal
  by (simp add: node_simps illegalRe_def dirParts_def parseUrl_dots withPolicy_simps
      sanitize_example_com sanitize_docs sanitize_dots)

text \<open>
  C3, as stated, fails: a directory segment can be empty, for a URL the constructor
  parses (the segment \<^verbatim>\<open>...\<close> is sanitized to the empty string) and for one it rejects
  (the fallback keeps the empty piece between two slashes); neither becomes \<^verbatim>\<open>index\<close>.
\<close>

theorem empty_directory_segment_counterexample:
  "dirParts node (withPolicy True False False) ''https://example.com/docs/.../page''
     = [''dist'', ''example.com'', ''docs'', []]
   \<and> dirParts node (withPolicy True False False) ''example.com//x/y''
     = [''dist'', ''example.com'', [], ''x'']
   \<and> [] \<in> set (tl (dirParts node (withPolicy True False False)
                         ''https://example.com/docs/.../page''))"
  by (simp add: dirParts_def parseUrl_dots parseUrl_no_scheme node_simps withPolicy_simps
      sanitize_example_com sanitize_docs sanitize_dots sanitize_empty sanitize_x)





text \<open>
  C5. With the page-title policy on, a non-empty title and the query-hash policy off, the
  filename is the sanitized title cut to its first 100 characters, followed by \<^verbatim>\<open>.md\<close>;
  if nothing is left of the title, the filename of \<^verbatim>\<open>parseUrl\<close> is kept. With the
  query-hash policy on, the filename is that of \<^verbatim>\<open>parseUrl\<close> whatever the title policy.
\<close>

theorem title_policy_filename:
  "(usePageTitlesForFilenames (fileOptions config) \<and> \<not> preserveUrlFilenames (fileOptions config)
      \<and> t \<noteq> [] \<longrightarrow>
        outputFilename px config url (Some t)
        = (if take 100 (sanitize px t) \<noteq> [] then take 100 (sanitize px t) @ ''.md''
           else filename (parseUrl px config url)))
   \<and> length (take 100 (sanitize px t)) \<le> 100
   \<and> (preserveUrlFilenames (fileOptions config) \<longrightarrow>
        outputFilename px config url title = filename (parseUrl px config url))"
  by (simp add: outputFilename_def truthy_def Let_def)

lemma sanitize_title1: "sanitize_filename ''About: Us?'' = ''About Us''"
  by (simp add: sanitize_defs Let_def)

lemma sanitize_title2: "sanitize_filename ''???'' = []"
  by (simp add: sanitize_defs Let_def)

theorem title_policy_filename_witness:
  "outputFilename node (withPolicy True True False) ''https://example.com/about/'' (Some ''About: Us?'')
     = ''About Us.md''
   \<and> outputFilename node (withPolicy True True False) ''https://example.com/about/'' (Some ''???'')
     = ''about.md''
   \<and> outputFilename node (withPolicy True True True) ''https://example.com/about/'' (Some ''About: Us?'')
     = ''about.md''"
  using title_policy_filename [of "withPolicy True True False" "''About: Us?''" node
          "''https://example.com/about/''" None]
        title_policy_filename [of "withPolicy True True False" "''???''" node
          "''https://example.com/about/''" None]
        title_policy_filename [of "withPolicy True True True" "''About: Us?''" node
          "''https://example.com/about/''" "Some ''About: Us?''"]
  by (simp add: withPolicy_simps node_simps sanitize_title1 sanitize_title2 parseUrl_about)

section \<open>Properties of the HTML processor\<close>

subsection \<open>Auxiliary facts\<close>


lemmas toy_defs =
  toy_dom_def toy_parse_def html_hi_def html_empty_def html_blank_title_def html_titled_def html_links_def
  page_def selectAll_def parseSelector_def parseSimple_def parseAttrSelector_def identName_def
  identChar_def trim_def isWhiteSpace_def elementById_def allElements_def toy_hasParent_def
  toy_remove_def toy_moveFirstChild_def toy_outerHTML_def toy_getAttribute_def toy_origin_def
  hoistChild_def putAttr_def voidTags_def attrText_def List.map_filter_def

lemmas process_defs =
  process_def process_try_def applySelectors_def processExcludeSelectors_def
  processUnwrapSelectors_def removeAttributes_def keepAttributes_def absolutizeMediaUrls_def
  absolutizeAttr_def fixAlt_def mediaTags_def lift_def seq_def truthy_def









lemma moveChildren_same:
  "moveFirstChildBefore L' = moveFirstChildBefore L \<Longrightarrow>
   moveChildren L' n el d = moveChildren L n el d"
  by (induction n arbitrary: d) (simp_all split: sum.splits)

lemma applySelectors_same:
  assumes "sameRewriter L L'"
  shows "applySelectors L' config d = applySelectors L config d"
proof -
  have q: "querySelectorAll L' = querySelectorAll L" and h: "hasParentNode L' = hasParentNode L"
    and r: "removeFromParent L' = removeFromParent L" and c: "childCount L' = childCount L"
    and m: "moveFirstChildBefore L' = moveFirstChildBefore L"
    and a: "attributeNames L' = attributeNames L"
    and k: "\<And>d el name. name \<notin> set keepAttributes \<Longrightarrow>
              removeAttribute L' d el name = removeAttribute L d el name"
    using assms by (simp_all add: sameRewriter_def)
  have ex: "processExcludeSelectors L' config = processExcludeSelectors L config"
    unfolding processExcludeSelectors_def q h r by (rule refl)
  have mc: "moveChildren L' = moveChildren L"
    by (intro ext) (rule moveChildren_same [OF m])
  have un: "processUnwrapSelectors L' config = processUnwrapSelectors L config"
    unfolding processUnwrapSelectors_def q h r c mc by (rule refl)
  have inner: "(\<lambda>name d''. if name \<notin> set keepAttributes
                    then (None :: js_error option, removeAttribute L' d'' element name) else (None, d''))
             = (\<lambda>name d''. if name \<notin> set keepAttributes
                    then (None, removeAttribute L d'' element name) else (None, d''))" for element
    by (intro ext) (simp add: k)
  have ra: "removeAttributes L' = removeAttributes L"
    unfolding removeAttributes_def q a inner by (rule refl)
  show ?thesis unfolding applySelectors_def ex un ra by (rule refl)
qed

lemma process_same:
  assumes "sameRewriter L L'"
  shows "process L' config html None = process L config html None"
proof -
  have j: "JSDOM_new L' = JSDOM_new L" and o: "outerHTML L' = outerHTML L"
    using assms by (simp_all add: sameRewriter_def)
  have t: "truthy None = False" by (simp add: truthy_def)
  have a: "applySelectors L' config = applySelectors L config"
    by (intro ext) (rule applySelectors_same [OF assms])
  show ?thesis
    unfolding process_def process_try_def j o t if_False a by (rule refl)
qed

lemma extractPageTitle_same:
  assumes "sameRewriter L L'"
  shows "extractPageTitle L' html = extractPageTitle L html"
proof -
  have j: "JSDOM_new L' = JSDOM_new L" and q: "querySelector L' = querySelector L"
    and t: "textContent L' = textContent L" and g: "getAttribute L' = getAttribute L"
    using assms by (simp_all add: sameRewriter_def)
  show ?thesis
    unfolding extractPageTitle_def extractPageTitle_try_def j q t g by (rule refl)
qed

lemma convert_try_same:
  assumes "sameRewriter L L'"
  shows "convert_try L' N config w url = convert_try L N config w url"
  unfolding convert_try_def process_same [OF assms] by (rule refl)

lemma convertHtmlToMarkdown_same:
  "sameRewriter L L' \<Longrightarrow>
   convertHtmlToMarkdown L' N config w url c = convertHtmlToMarkdown L N config w url c"
proof (induction L N config w url c rule: convertHtmlToMarkdown.induct)
  case (1 L N config w url c)
  have ct: "convert_try L' N config w url = convert_try L N config w url"
    using "1.prems" by (rule convert_try_same)
  obtain r w' where cw: "convert_try L N config w url = (r, w')"
    by (cases "convert_try L N config w url")
  show ?case
  proof (cases r)
    case (Inr content)
    then show ?thesis
      by (simp add: convertHtmlToMarkdown.simps [of L' N config w url c]
          convertHtmlToMarkdown.simps [of L N config w url c] ct cw)
  next
    case (Inl e)
    show ?thesis
    proof (cases "c < retryAttempts config")
      case True
      have "convertHtmlToMarkdown L' N config
              (sleep (retryDelay config) (console (WarnConvertRetry url (c + 1)) w')) url (c + 1)
          = convertHtmlToMarkdown L N config
              (sleep (retryDelay config) (console (WarnConvertRetry url (c + 1)) w')) url (c + 1)"
        using "1.IH" [of "Inl e" w' e] cw Inl True "1.prems" by simp
      then show ?thesis using Inl True
        by (simp add: convertHtmlToMarkdown.simps [of L' N config w url c]
            convertHtmlToMarkdown.simps [of L N config w url c] ct cw)
    next
      case False
      then show ?thesis using Inl
        by (simp add: convertHtmlToMarkdown.simps [of L' N config w url c]
            convertHtmlToMarkdown.simps [of L N config w url c] ct cw)
    qed
  qed
qed

lemma processUrl_same:
  assumes "sameRewriter L L'"
  shows "processUrl L' N px config w url = processUrl L N px config w url"
proof -
  have e: "extractPageTitle L' = extractPageTitle L"
    by (intro ext) (rule extractPageTitle_same [OF assms])
  have p: "\<And>h. process L' config h None = process L config h None"
    by (rule process_same [OF assms])
  have c: "convertHtmlToMarkdown L' N config = convertHtmlToMarkdown L N config"
    by (intro ext) (rule convertHtmlToMarkdown_same [OF assms])
  have t: "titleStage L' N config = titleStage L N config"
    unfolding titleStage_def e by (rule refl)
  have m: "markdownStage L' N config = markdownStage L N config"
    unfolding markdownStage_def p c by (rule refl)
  show ?thesis unfolding processUrl_def processUrl_try_def t m by (rule refl)
qed

lemma batchLoop_same:
  "sameRewriter L L' \<Longrightarrow>
   batchLoop L' N px config urls i completed w = batchLoop L N px config urls i completed w"
proof (induction L N px config urls i completed w rule: batchLoop.induct)
  case (1 L N px config urls i completed w)
  have pu: "processUrl L' N px config = processUrl L N px config"
    by (intro ext) (rule processUrl_same [OF "1.prems"])
  have pb: "processBatch L' N px config = processBatch L N px config"
    unfolding processBatch_def pu by (rule refl)
  show ?case
  proof (cases "i < length urls \<and> maxConcurrent config \<noteq> 0")
    case True
    then show ?thesis
      using "1.IH" [OF _ _ refl refl refl] "1.prems"
      by (simp add: batchLoop.simps [of L' N px config urls i completed w]
          batchLoop.simps [of L N px config urls i completed w] pb Let_def)
  next
    case False
    then show ?thesis
      by (auto simp add: batchLoop.simps [of L' N px config urls i completed w]
          batchLoop.simps [of L N px config urls i completed w])
  qed
qed


lemma process_not_a_page: "process toy_dom config ''zzz'' None = Inr ''zzz''"
  by (simp add: process_def process_try_def toy_defs)


lemma process_links:
  "process toy_dom DEFAULT_CONFIG html_links None
   = Inr (''<html><head></head><body><img src='' @ [CHR 0x22] @ ''/a.png'' @ [CHR 0x22] @
          ''><a href='' @ [CHR 0x22] @ ''/x'' @ [CHR 0x22] @ ''>x</a></body></html>'')"
  by (simp add: process_defs toy_defs DEFAULT_CONFIG_def Let_def)

lemma process_links_absolute:
  "process toy_dom DEFAULT_CONFIG html_links (Some ''https://example.com/about/'')
   = Inr (''<html><head></head><body><img src='' @ [CHR 0x22] @ ''https://example.com/a.png'' @
          [CHR 0x22] @ ''><a href='' @ [CHR 0x22] @ ''https://example.com/x'' @ [CHR 0x22] @
          ''>x</a></body></html>'')"
  by (simp add: process_defs toy_defs DEFAULT_CONFIG_def URL_examples_def startsWith_def Let_def)

subsection \<open>The claims on the HTML processor\<close>

text \<open>
  C6, at the failing input. The page has a \<^verbatim>\<open>title\<close> element whose text is one space and
  an \<^verbatim>\<open>h1\<close> element with the text \<^verbatim>\<open>Hello\<close>. The text of the title is tested before it is
  trimmed, so the result is the empty string and the \<^verbatim>\<open>h1\<close> element is not looked at;
  the first non-empty trimmed match is \<^verbatim>\<open>Hello\<close>.
\<close>

theorem blank_title_returned:
  "extractPageTitle toy_dom html_blank_title = Inr (Some [])"
  by (simp add: extractPageTitle_def extractPageTitle_try_def toy_defs truthy_def Let_def)




text \<open>
  C10. The pipeline calls \<^verbatim>\<open>process\<close> without a page URL, so nothing of
  \<^verbatim>\<open>absolutizeMediaUrls\<close> runs: a run of the pipeline is the same for two DOM libraries
  that differ only in what \<^verbatim>\<open>setAttribute\<close>, \<^verbatim>\<open>getElementsByTagName\<close>, the origin of a URL
  and the replacement in \<^verbatim>\<open>alt\<close> texts do, and in what removing an attribute named
  \<^verbatim>\<open>href\<close>, \<^verbatim>\<open>src\<close>, \<^verbatim>\<open>alt\<close> or \<^verbatim>\<open>title\<close> does. No attribute value is set and no
  \<^verbatim>\<open>src\<close> or \<^verbatim>\<open>href\<close> is removed on the way to the converter.
\<close>

theorem pipeline_never_absolutizes:
  assumes "sameRewriter L L'"
  shows "process L' config html None = process L config html None
       \<and> convertHtmlToMarkdown L' N config w url 0 = convertHtmlToMarkdown L N config w url 0
       \<and> markdownStage L' N config w url htmlContent = markdownStage L N config w url htmlContent
       \<and> processUrl L' N px config w url = processUrl L N px config w url
       \<and> processUrlsInBatches L' N px config w urls = processUrlsInBatches L N px config w urls"
proof -
  have p: "\<And>h. process L' config h None = process L config h None"
    by (rule process_same [OF assms])
  have c: "convertHtmlToMarkdown L' N config = convertHtmlToMarkdown L N config"
    by (intro ext) (rule convertHtmlToMarkdown_same [OF assms])
  have m: "markdownStage L' N config = markdownStage L N config"
    unfolding markdownStage_def p c by (rule refl)
  show ?thesis
    using p c m processUrl_same [OF assms] batchLoop_same [OF assms]
    by (simp add: processUrlsInBatches_def)
qed

theorem pipeline_never_absolutizes_witness:
  "sameRewriter toy_dom
     (toy_dom\<lparr> setAttribute := (\<lambda>d el name v. Inl DOMException),
               URL_origin := (\<lambda>u. Inl TypeError) \<rparr>)
   \<and> process (toy_dom\<lparr> setAttribute := (\<lambda>d el name v. Inl DOMException),
                         URL_origin := (\<lambda>u. Inl TypeError) \<rparr>) DEFAULT_CONFIG html_links None
     = Inr (''<html><head></head><body><img src='' @ [CHR 0x22] @ ''/a.png'' @ [CHR 0x22] @
            ''><a href='' @ [CHR 0x22] @ ''/x'' @ [CHR 0x22] @ ''>x</a></body></html>'')"
proof -
  let ?L' = "toy_dom\<lparr> setAttribute := (\<lambda>d el name v. Inl DOMException),
                       URL_origin := (\<lambda>u. Inl TypeError) \<rparr>"
  have s: "sameRewriter toy_dom ?L'" by (simp add: sameRewriter_def)
  from pipeline_never_absolutizes [OF s, of DEFAULT_CONFIG html_links]
  have "process ?L' DEFAULT_CONFIG html_links None = process toy_dom DEFAULT_CONFIG html_links None"
    by blast
  then show ?thesis using s process_links by simp
qed

section \<open>Properties of the sitemap resolver\<close>

subsection \<open>Auxiliary facts\<close>

















subsection \<open>The claim on the sitemap resolver\<close>



section \<open>Properties of the batch pipeline\<close>

subsection \<open>The retry loop of fetchHtmlContent\<close>

lemma failsFrom_iff: "failsFrom N url a k \<longleftrightarrow> (\<forall>j<k. failing (server N url (a + j)))"
  by (auto simp: failsFrom_def list_all_iff)









subsection \<open>The retry loop of convertHtmlToMarkdown\<close>


lemma failsFrom_le: "failsFrom N url a m \<Longrightarrow> k \<le> m \<Longrightarrow> failsFrom N url a k"
  by (auto simp: failsFrom_iff)











subsection \<open>processUrl and the batches\<close>














subsection \<open>Evaluation of the examples\<close>

















end
